theory Spec2Isabelle
  imports Main
begin

section \<open>The game console component (src/components/GameConsole.tsx)\<close>

text \<open>
  The component is a React function component. Each call of the function is one render;
  what React keeps between renders (the \<open>useState\<close> cell, the refs, the dependencies
  of the effect) is a record that a render takes and returns. What the hooks and the
  context hand to a render is a record of inputs. Requests given to axios are appended
  to a list. The \<open>throw\<close> of the component is the left summand of the result.
\<close>

subsection \<open>Data\<close>

text \<open>The seven cases of the \<open>switch (consoleStatus)\<close>.\<close>

datatype ConsoleStatus =
  NoPermission | Loading | Buffered | Live | LiveNoBuffer | Closed | Error

text \<open>
  Of the selected instance the component reads \<open>uuid\<close> and \<open>state\<close>; the state
  is compared with the string \<open>'Running'\<close> and lower-cased, so it is a string here.
\<close>

record InstanceInfo =
  uuid :: string
  state :: string

text \<open>A line of the console log: the list key and the text of the item.\<close>

record ConsoleEvent =
  snowflake_str :: string
  message :: string

text \<open>
  The three measurements of the list element that the component reads, in pixels.
  \<open>listRef.current\<close> is \<open>None\<close> while the list element is not mounted.
\<close>

record HTMLOListElement =
  scrollHeight :: int
  scrollTop :: int
  clientHeight :: int

datatype JsError = JsError string

record AxiosRequest =
  http_method :: string
  url :: string
  data :: string
  headers :: "(string \<times> string) list"

text \<open>What a render reads from the context and from the hooks it calls.\<close>

record Inputs =
  selectedInstance :: "InstanceInfo option"
  canAccessConsole :: bool
  consoleLog :: "ConsoleEvent list"
  consoleLogRef :: nat
  consoleStatus :: ConsoleStatus

text \<open>
  \<open>consoleLogRef\<close> is the identity of the array object \<open>consoleLog\<close>: React compares
  the dependencies of an effect with \<open>Object.is\<close>, that is by reference.

  What React keeps for the component between renders, and the requests sent so far:
\<close>

record Hooks =
  command :: string
  listRef :: "HTMLOListElement option"
  previousRef :: "bool option"
  effectDeps :: "nat option"
  sent :: "AxiosRequest list"

datatype Pane = NoPermissionPane | LogList "ConsoleEvent list"

text \<open>
  The rendered tree, as far as it varies: the status text at the top right (the empty
  string when the element is not rendered), the pane, and the attributes of the input.
\<close>

record View =
  statusBanner :: string
  pane :: Pane
  placeholder :: string
  inputValue :: string
  disabled :: bool

subsection \<open>JavaScript and DOM operations the component calls\<close>

text \<open>
  \<open>String.prototype.toLowerCase\<close> on the ASCII letters; a \<open>char\<close> is a byte, and the
  bytes of other characters are kept.
\<close>

definition toLowerCase_char :: "char \<Rightarrow> char" where
  "toLowerCase_char c =
     (let n = (of_char c :: nat) in if 65 \<le> n \<and> n \<le> 90 then char_of (n + 32) else c)"

definition toLowerCase :: "string \<Rightarrow> string" where
  "toLowerCase s = map toLowerCase_char s"

text \<open>
  \<open>JSON.stringify\<close> of a string (QuoteJSONString of ECMA-262): the text between double
  quotes, with the quote, the backslash and the control characters escaped.
\<close>

definition hexDigit :: "nat \<Rightarrow> char" where
  "hexDigit n = (if n < 10 then char_of (48 + n) else char_of (87 + n))"

definition QuoteJSONChar :: "char \<Rightarrow> string" where
  "QuoteJSONChar c =
     (let n = (of_char c :: nat) in
      if n = 8 then [CHR 0x5C, CHR ''b'']
      else if n = 9 then [CHR 0x5C, CHR ''t'']
      else if n = 10 then [CHR 0x5C, CHR ''n'']
      else if n = 12 then [CHR 0x5C, CHR ''f'']
      else if n = 13 then [CHR 0x5C, CHR ''r'']
      else if n = 34 then [CHR 0x5C, CHR 0x22]
      else if n = 92 then [CHR 0x5C, CHR 0x5C]
      else if n < 32 then
        [CHR 0x5C, CHR ''u'', CHR ''0'', CHR ''0'', hexDigit (n div 16), hexDigit (n mod 16)]
      else [c])"

definition JSON_stringify :: "string \<Rightarrow> string" where
  "JSON_stringify s = [CHR 0x22] @ concat (map QuoteJSONChar s) @ [CHR 0x22]"

text \<open>
  Assigning \<open>scrollTop\<close>: the browser clamps the value to the scrollable range
  (CSSOM View), so the largest offset is \<open>scrollHeight - clientHeight\<close>.
\<close>

definition set_scrollTop :: "HTMLOListElement \<Rightarrow> int \<Rightarrow> HTMLOListElement" where
  "set_scrollTop el y = el\<lparr>scrollTop := max 0 (min y (scrollHeight el - clientHeight el))\<rparr>"

subsection \<open>The component\<close>

definition autoScrollThreshold :: int where
  "autoScrollThreshold = 100"

definition isAtBottom :: "HTMLOListElement option \<Rightarrow> bool" where
  "isAtBottom current =
     (case current of
        Some el \<Rightarrow> scrollHeight el - scrollTop el - clientHeight el < autoScrollThreshold
      | None \<Rightarrow> True)"

definition scrollToBottom :: "HTMLOListElement option \<Rightarrow> HTMLOListElement option" where
  "scrollToBottom current =
     (case current of
        Some el \<Rightarrow> Some (set_scrollTop el (scrollHeight el))
      | None \<Rightarrow> None)"

fun consoleStatusMessage :: "ConsoleStatus \<Rightarrow> string" where
  "consoleStatusMessage NoPermission = ''''"
| "consoleStatusMessage Loading = ''Loading console...''"
| "consoleStatusMessage Buffered = ''History messages. No live updates''"
| "consoleStatusMessage Live = ''Console is live''"
| "consoleStatusMessage LiveNoBuffer =
     ''Console is live but failed to fetch history. Your internet connection may be unstable''"
| "consoleStatusMessage Closed = ''Console is closed''"
| "consoleStatusMessage Error = ''Connection lost or error''"

definition consoleInputMessage :: "bool \<Rightarrow> ConsoleStatus \<Rightarrow> string \<Rightarrow> string" where
  "consoleInputMessage canAccess status runState =
     (if \<not> canAccess \<or> status = NoPermission then ''No permission''
      else if runState \<noteq> ''Running'' then ''Instance is '' @ toLowerCase runState
      else if status = Closed then ''Console is closed''
      else '''')"

definition renderView :: "Inputs \<Rightarrow> InstanceInfo \<Rightarrow> string \<Rightarrow> View" where
  "renderView i inst cmd =
     (let msg = consoleInputMessage (canAccessConsole i) (consoleStatus i) (state inst) in
      \<lparr> statusBanner = consoleStatusMessage (consoleStatus i),
        pane = (if \<not> canAccessConsole i \<or> consoleStatus i = NoPermission
                then NoPermissionPane else LogList (consoleLog i)),
        placeholder = (if msg = '''' then ''Enter command...'' else msg),
        inputValue = cmd,
        disabled = (msg \<noteq> '''') \<rparr>)"

text \<open>
  Modelled from the spec: \<open>usePrevious\<close> (imported from \<open>utils/hooks\<close>) is not among the
  sources. The spec calls what it returns the "previous value", "captured before the
  mutating render": the hook hands back the value its argument had at the render
  before this one, nothing at the first render, and keeps the argument for the next
  render. The result is the pair of the value handed back and the value kept.
\<close>

definition usePrevious :: "'a \<Rightarrow> 'a option \<Rightarrow> 'a option \<times> 'a option" where
  "usePrevious v kept = (kept, Some v)"

text \<open>
  The body of the effect, \<open>if (oldIsAtBottom) scrollToBottom()\<close>: \<open>undefined\<close> and
  \<open>false\<close> are falsy.
\<close>

definition autoScrollEffect ::
  "bool option \<Rightarrow> HTMLOListElement option \<Rightarrow> HTMLOListElement option" where
  "autoScrollEffect oldIsAtBottom current =
     (if oldIsAtBottom = Some True then scrollToBottom current else current)"

text \<open>
  One render and its commit. \<open>laidOut\<close> is what the list element measures once React
  has written the new items into the document; the element is mounted (and
  \<open>listRef.current\<close> set) only when the log pane is rendered. The effect runs after the
  commit, at the first render and whenever \<open>consoleLog\<close> is another array than at the
  render before; it reads the \<open>oldIsAtBottom\<close> of its own render.
\<close>

definition commitList :: "View \<Rightarrow> HTMLOListElement \<Rightarrow> HTMLOListElement option" where
  "commitList v laidOut = (case pane v of NoPermissionPane \<Rightarrow> None | LogList _ \<Rightarrow> Some laidOut)"

definition GameConsole ::
  "Inputs \<Rightarrow> HTMLOListElement \<Rightarrow> Hooks \<Rightarrow> JsError + View \<times> Hooks" where
  "GameConsole i laidOut h =
     (case selectedInstance i of
        None \<Rightarrow> Inl (JsError ''No instance selected'')
      | Some inst \<Rightarrow>
          (let (oldIsAtBottom, kept) = usePrevious (isAtBottom (listRef h)) (previousRef h);
               v = renderView i inst (command h);
               current = (if effectDeps h = Some (consoleLogRef i) then commitList v laidOut
                          else autoScrollEffect oldIsAtBottom (commitList v laidOut))
           in Inr (v, h\<lparr> listRef := current,
                           previousRef := kept,
                           effectDeps := Some (consoleLogRef i) \<rparr>)))"

text \<open>The state of a component that has not rendered yet.\<close>

definition unmounted :: Hooks where
  "unmounted =
     \<lparr> command = '''', listRef = None, previousRef = None, effectDeps = None, sent = [] \<rparr>"

subsection \<open>Event handlers\<close>

definition sendCommand :: "string \<Rightarrow> string \<Rightarrow> Hooks \<Rightarrow> Hooks" where
  "sendCommand instanceUuid cmd h =
     h\<lparr> sent := sent h @
            [\<lparr> http_method = ''post'',
               url = ''/instance/'' @ instanceUuid @ ''/console'',
               data = JSON_stringify cmd,
               headers = [(''Content-Type'', ''application/json'')] \<rparr>],
        listRef := scrollToBottom (listRef h) \<rparr>"

definition onSubmit :: "InstanceInfo \<Rightarrow> Hooks \<Rightarrow> Hooks" where
  "onSubmit inst h = (sendCommand (uuid inst) (command h) h)\<lparr> command := '''' \<rparr>"

definition onChange :: "string \<Rightarrow> Hooks \<Rightarrow> Hooks" where
  "onChange v h = h\<lparr> command := v \<rparr>"

subsection \<open>What the user can do\<close>

text \<open>
  The form has one control, the text input, and no submit button: its submit event
  comes from pressing Enter in the input, and typing reaches \<open>onChange\<close> through the
  input as well. A disabled input takes no focus and no keys (HTML), so both happen
  only while the input of the view on screen is enabled. Scrolling the list changes
  \<open>scrollTop\<close>; the component registers no scroll handler, so no render follows.
\<close>

definition pressEnter :: "View \<Rightarrow> InstanceInfo \<Rightarrow> Hooks \<Rightarrow> Hooks" where
  "pressEnter v inst h = (if disabled v then h else onSubmit inst h)"

definition typeText :: "View \<Rightarrow> string \<Rightarrow> Hooks \<Rightarrow> Hooks" where
  "typeText v s h = (if disabled v then h else onChange s h)"

definition userScroll :: "int \<Rightarrow> Hooks \<Rightarrow> Hooks" where
  "userScroll y h = h\<lparr> listRef := map_option (\<lambda>el. set_scrollTop el y) (listRef h) \<rparr>"

text \<open>A run of renders and scrolls; a render that throws ends it.\<close>

datatype Event = Render Inputs HTMLOListElement | UserScroll int

fun step :: "Hooks \<Rightarrow> Event \<Rightarrow> JsError + Hooks" where
  "step h (Render i laidOut) =
     (case GameConsole i laidOut h of Inl e \<Rightarrow> Inl e | Inr (v, h') \<Rightarrow> Inr h')"
| "step h (UserScroll y) = Inr (userScroll y h)"

fun run :: "Hooks \<Rightarrow> Event list \<Rightarrow> JsError + Hooks" where
  "run h [] = Inr h"
| "run h (e # es) = (case step h e of Inl err \<Rightarrow> Inl err | Inr h' \<Rightarrow> run h' es)"

section \<open>The line buffer\<close>

text \<open>
  Modelled from the spec: the store of console lines behind \<open>useConsoleStream\<close>
  (imported from \<open>data/ConsoleStream\<close>) is not among the sources. The spec (3, 4.1)
  gives its data and its contract. A line is an id and a message, the id "globally
  ordered, strictly increasing"; ids are natural numbers here. The buffer is the
  sequence of its lines.
\<close>

record ConsoleLine =
  line_id :: nat
  line_message :: string

type_synonym LineBuffer = "ConsoleLine list"

text \<open>
  Modelled from the spec: one line of \<open>append\<close>. "Lines whose id already exists in the
  buffer are dropped"; the others "are inserted in increasing-id order relative to
  existing content".
\<close>

definition insertLine :: "ConsoleLine \<Rightarrow> LineBuffer \<Rightarrow> LineBuffer" where
  "insertLine l buf =
     (if line_id l \<in> set (map line_id buf) then buf else insort_key line_id l buf)"

text \<open>
  Modelled from the spec: \<open>append(batch)\<close> "merges a batch into the buffer"; "if the
  batch itself is unordered it must be sorted before merge".
\<close>

definition appendBatch :: "ConsoleLine list \<Rightarrow> LineBuffer \<Rightarrow> LineBuffer" where
  "appendBatch batch buf = foldl (\<lambda>b l. insertLine l b) buf (sort_key line_id batch)"



text \<open>Modelled from the spec: \<open>snapshot()\<close> "returns the current ordered sequence".\<close>

definition snapshot :: "LineBuffer \<Rightarrow> ConsoleLine list" where
  "snapshot buf = buf"

text \<open>
  Modelled from the spec: what reaches the buffer is the history batch, through
  \<open>replaceHistory\<close>, or a live batch, through \<open>append\<close>. The history fetch "returns an
  ordered batch", and input that is "non-monotonic" in its ids "is rejected at the
  boundary, not inside the buffer" (4.1, 6): a history batch is accepted when its ids
  are strictly increasing. A live batch may come in any order and may repeat lines.
\<close>

datatype Delivery = History "ConsoleLine list" | LiveBatch "ConsoleLine list"




section \<open>Concrete inputs\<close>

text \<open>
  A running instance, the inputs of a render for it with console access granted, and a
  list element by its three measurements. They are the inputs at which the properties
  below are evaluated.
\<close>

definition exampleInstance :: InstanceInfo where
  "exampleInstance = \<lparr> uuid = ''6e1f'', state = ''Running'' \<rparr>"

definition logLine :: "string \<Rightarrow> ConsoleEvent" where
  "logLine k = \<lparr> snowflake_str = k, message = ''tick '' @ k \<rparr>"

definition exampleInputs :: "ConsoleStatus \<Rightarrow> ConsoleEvent list \<Rightarrow> nat \<Rightarrow> Inputs" where
  "exampleInputs status log ref =
     \<lparr> selectedInstance = Some exampleInstance, canAccessConsole = True,
       consoleLog = log, consoleLogRef = ref, consoleStatus = status \<rparr>"

definition listBox :: "int \<Rightarrow> int \<Rightarrow> int \<Rightarrow> HTMLOListElement" where
  "listBox sh st ch = \<lparr> scrollHeight = sh, scrollTop = st, clientHeight = ch \<rparr>"

definition line :: "nat \<Rightarrow> ConsoleLine" where
  "line n = \<lparr> line_id = n, line_message = ''out'' \<rparr>"

section \<open>Properties of the component\<close>

subsection \<open>What a render returns\<close>

lemma GameConsole_Some:
  "selectedInstance i = Some inst \<Longrightarrow>
   GameConsole i laidOut h =
     Inr (renderView i inst (command h),
          h\<lparr> listRef :=
                (if effectDeps h = Some (consoleLogRef i)
                 then commitList (renderView i inst (command h)) laidOut
                 else autoScrollEffect (previousRef h)
                        (commitList (renderView i inst (command h)) laidOut)),
              previousRef := Some (isAtBottom (listRef h)),
              effectDeps := Some (consoleLogRef i) \<rparr>)"
  by (simp add: GameConsole_def usePrevious_def Let_def)

lemma consoleInputMessage_empty_iff:
  "consoleInputMessage c s r = '''' \<longleftrightarrow>
     c \<and> s \<noteq> NoPermission \<and> r = ''Running'' \<and> s \<noteq> Closed"
  by (simp add: consoleInputMessage_def)

lemma consoleInputMessage_not_prompt: "consoleInputMessage c s r \<noteq> ''Enter command...''"
  by (simp add: consoleInputMessage_def)

lemma disabled_renderView:
  "disabled (renderView i inst cmd) \<longleftrightarrow>
     (\<not> canAccessConsole i \<or> consoleStatus i = NoPermission \<or> state inst \<noteq> ''Running''
      \<or> consoleStatus i = Closed)"
  by (auto simp add: renderView_def Let_def consoleInputMessage_empty_iff)

lemma placeholder_renderView:
  "placeholder (renderView i inst cmd) =
     (if disabled (renderView i inst cmd)
      then consoleInputMessage (canAccessConsole i) (consoleStatus i) (state inst)
      else ''Enter command...'')"
  by (simp add: renderView_def Let_def)

lemma pane_renderView:
  "pane (renderView i inst cmd) =
     (if \<not> canAccessConsole i \<or> consoleStatus i = NoPermission
      then NoPermissionPane else LogList (consoleLog i))"
  by (simp add: renderView_def Let_def)

lemma autoScrollEffect_mounted: "\<exists>el'. autoScrollEffect old (Some el) = Some el'"
  by (simp add: autoScrollEffect_def scrollToBottom_def)

lemmas eval_defs =
  unmounted_def exampleInputs_def exampleInstance_def listBox_def logLine_def
  renderView_def consoleInputMessage_def commitList_def autoScrollEffect_def
  scrollToBottom_def set_scrollTop_def isAtBottom_def autoScrollThreshold_def userScroll_def
  pressEnter_def onSubmit_def sendCommand_def Let_def

subsection \<open>Command gating\<close>

text \<open>
  C1, as the code has it. For every render with an instance selected, the command input
  is disabled exactly when console access is denied or the status is \<open>no-permission\<close>,
  or the run-state of the instance is not "Running", or the status is \<open>closed\<close>. A
  disabled input shows the reason as its placeholder (a text that is neither empty nor
  the prompt), the render returns normally, and pressing Enter changes nothing: no
  request is given to the transport, whatever the state \<open>k\<close> of the component then.
\<close>

theorem C1_command_gating:
  assumes "selectedInstance i = Some inst"
  shows "\<exists>v h'. GameConsole i laidOut h = Inr (v, h')
           \<and> (disabled v \<longleftrightarrow>
                (\<not> canAccessConsole i \<or> consoleStatus i = NoPermission
                 \<or> state inst \<noteq> ''Running'' \<or> consoleStatus i = Closed))
           \<and> (disabled v \<longrightarrow>
                placeholder v = consoleInputMessage (canAccessConsole i) (consoleStatus i) (state inst)
                \<and> placeholder v \<noteq> ''''
                \<and> placeholder v \<noteq> ''Enter command...''
                \<and> pressEnter v inst k = k)"
proof -
  define v where "v = renderView i inst (command h)"
  have gate: "disabled v \<longleftrightarrow>
            (\<not> canAccessConsole i \<or> consoleStatus i = NoPermission
             \<or> state inst \<noteq> ''Running'' \<or> consoleStatus i = Closed)"
    unfolding v_def by (rule disabled_renderView)
  have msg: "placeholder v = consoleInputMessage (canAccessConsole i) (consoleStatus i) (state inst)"
    if "disabled v"
    using that unfolding v_def by (simp add: placeholder_renderView)
  have nonempty: "placeholder v \<noteq> ''''" if "disabled v"
    using that unfolding v_def by (simp add: renderView_def Let_def)
  have prompt: "placeholder v \<noteq> ''Enter command...''" if "disabled v"
    using msg [OF that] by (simp add: consoleInputMessage_not_prompt)
  have silent: "pressEnter v inst k = k" if "disabled v"
    using that by (simp add: pressEnter_def)
  have "\<exists>h'. GameConsole i laidOut h = Inr (v, h')"
    unfolding v_def by (simp add: GameConsole_Some [OF assms])
  then show ?thesis
    using gate msg nonempty prompt silent by blast
qed

text \<open>
  At a closed console of a running instance: the input is disabled with the text
  "Console is closed", and Enter leaves a typed command where it is, with nothing sent.
\<close>

theorem C1_command_gating_witness:
  "selectedInstance (exampleInputs Closed [] 0) = Some exampleInstance
   \<and> GameConsole (exampleInputs Closed [] 0) (listBox 400 0 400) unmounted =
       Inr (\<lparr> statusBanner = ''Console is closed'', pane = LogList [],
              placeholder = ''Console is closed'', inputValue = '''', disabled = True \<rparr>,
            \<lparr> command = '''', listRef = Some (listBox 400 0 400), previousRef = Some True,
              effectDeps = Some 0, sent = [] \<rparr>)
   \<and> pressEnter \<lparr> statusBanner = ''Console is closed'', pane = LogList [],
              placeholder = ''Console is closed'', inputValue = '''', disabled = True \<rparr>
         exampleInstance (unmounted\<lparr> command := ''stop'' \<rparr>) = unmounted\<lparr> command := ''stop'' \<rparr>"
proof -
  have sel: "selectedInstance (exampleInputs Closed [] 0) = Some exampleInstance"
    by (simp add: exampleInputs_def)
  have r: "GameConsole (exampleInputs Closed [] 0) (listBox 400 0 400) unmounted =
       Inr (\<lparr> statusBanner = ''Console is closed'', pane = LogList [],
              placeholder = ''Console is closed'', inputValue = '''', disabled = True \<rparr>,
            \<lparr> command = '''', listRef = Some (listBox 400 0 400), previousRef = Some True,
              effectDeps = Some 0, sent = [] \<rparr>)"
    by (simp add: GameConsole_Some [OF sel]) (simp add: eval_defs)
  show ?thesis
    using C1_command_gating [OF sel, of "listBox 400 0 400" unmounted
        "unmounted\<lparr> command := ''stop'' \<rparr>"] sel r
    by auto
qed

text \<open>
  The claim as stated has the input blocked whenever the status is neither \<open>live\<close> nor
  \<open>live-no-buffer\<close>. While the console is still loading (access granted, instance
  running) the input is enabled, and Enter posts the command.
\<close>

theorem C1_counterexample:
  "consoleStatus (exampleInputs Loading [] 0) \<noteq> Live
   \<and> consoleStatus (exampleInputs Loading [] 0) \<noteq> LiveNoBuffer
   \<and> GameConsole (exampleInputs Loading [] 0) (listBox 400 0 400)
         (unmounted\<lparr> command := ''say hi'' \<rparr>) =
       Inr (\<lparr> statusBanner = ''Loading console...'', pane = LogList [],
              placeholder = ''Enter command...'', inputValue = ''say hi'', disabled = False \<rparr>,
            \<lparr> command = ''say hi'', listRef = Some (listBox 400 0 400),
              previousRef = Some True, effectDeps = Some 0, sent = [] \<rparr>)
   \<and> sent (pressEnter
         \<lparr> statusBanner = ''Loading console...'', pane = LogList [],
           placeholder = ''Enter command...'', inputValue = ''say hi'', disabled = False \<rparr>
         exampleInstance
         \<lparr> command = ''say hi'', listRef = Some (listBox 400 0 400),
           previousRef = Some True, effectDeps = Some 0, sent = [] \<rparr>) =
       [\<lparr> http_method = ''post'', url = ''/instance/6e1f/console'',
          data = JSON_stringify ''say hi'',
          headers = [(''Content-Type'', ''application/json'')] \<rparr>]"
proof -
  have sel: "selectedInstance (exampleInputs Loading [] 0) = Some exampleInstance"
    by (simp add: exampleInputs_def)
  show ?thesis
    by (simp add: GameConsole_Some [OF sel]) (simp add: eval_defs)
qed

subsection \<open>Permission\<close>

text \<open>
  The pane and the command input under a failed permission check. Whatever the
  console status and the run-state of the selected instance: if \<open>canAccessConsole\<close>
  fails, or the status is \<open>no-permission\<close>, the render shows the no-permission pane
  in place of the log, and the input is disabled with the text "No permission" (not
  the run-state text, not "Console is closed").
\<close>

lemma permission_pane_and_input:
  assumes "selectedInstance i = Some inst"
    and "\<not> canAccessConsole i \<or> consoleStatus i = NoPermission"
  shows "\<exists>v h'. GameConsole i laidOut h = Inr (v, h')
           \<and> pane v = NoPermissionPane \<and> disabled v \<and> placeholder v = ''No permission''"
proof -
  define v where "v = renderView i inst (command h)"
  have msg: "consoleInputMessage (canAccessConsole i) (consoleStatus i) (state inst)
               = ''No permission''"
    using assms(2) by (auto simp add: consoleInputMessage_def)
  have "pane v = NoPermissionPane"
    using assms(2) by (auto simp add: v_def pane_renderView)
  moreover have "disabled v" and "placeholder v = ''No permission''"
    by (simp_all add: v_def renderView_def Let_def msg)
  moreover have "\<exists>h'. GameConsole i laidOut h = Inr (v, h')"
    unfolding v_def by (simp add: GameConsole_Some [OF assms(1)])
  ultimately show ?thesis by blast
qed

text \<open>
  The status text at the top right is another matter: it is the text of the console
  status whether or not access is granted, and it is absent only at the status
  \<open>no-permission\<close>.
\<close>

lemma statusBanner_follows_status:
  assumes "selectedInstance i = Some inst"
  shows "\<exists>v h'. GameConsole i laidOut h = Inr (v, h')
           \<and> statusBanner v = consoleStatusMessage (consoleStatus i)
           \<and> (statusBanner v = '''' \<longleftrightarrow> consoleStatus i = NoPermission)"
  by (cases "consoleStatus i") (simp_all add: GameConsole_Some [OF assms] renderView_def Let_def)

text \<open>
  C3 has a failed permission check preempt every other state: the console presents
  the no-permission state, overriding any connection status and any run-state
  message. The render below is of a live console with access denied. The pane and the
  input present no permission, as the claim has it, and the status text beside them
  reads "Console is live": the \<open>switch\<close> that chooses it tests \<open>consoleStatus\<close>
  alone, where the pane and the input message test \<open>!canAccessConsole\<close> as well.
\<close>

theorem C3_status_text_beside_no_permission:
  "GameConsole
     \<lparr> selectedInstance = Some exampleInstance, canAccessConsole = False,
       consoleLog = [logLine ''1''], consoleLogRef = 0, consoleStatus = Live \<rparr>
     (listBox 400 0 400) unmounted =
   Inr (\<lparr> statusBanner = ''Console is live'', pane = NoPermissionPane,
          placeholder = ''No permission'', inputValue = '''', disabled = True \<rparr>,
        \<lparr> command = '''', listRef = None, previousRef = Some True,
          effectDeps = Some 0, sent = [] \<rparr>)"
  by (simp add: GameConsole_Some eval_defs)

subsection \<open>Sending a command\<close>

text \<open>
  C5. For every render whose input is enabled (access granted, status not
  \<open>no-permission\<close>, instance running, status not \<open>closed\<close>), pressing Enter gives
  axios one more request: a POST to \<open>/instance/<uuid>/console\<close> of the selected
  instance, whose body is \<open>JSON.stringify\<close> of the text of the input as typed. The
  list is mounted, and its \<open>scrollTop\<close> is assigned its \<open>scrollHeight\<close>: a scroll to
  the bottom whatever the position was. The input is emptied.
\<close>

theorem C5_submit_forwards_and_scrolls:
  assumes "selectedInstance i = Some inst"
    and "canAccessConsole i" and "consoleStatus i \<noteq> NoPermission"
    and "state inst = ''Running''" and "consoleStatus i \<noteq> Closed"
  shows "\<exists>v h' el. GameConsole i laidOut h = Inr (v, h') \<and> \<not> disabled v
           \<and> listRef h' = Some el
           \<and> pressEnter v inst h' =
               h'\<lparr> sent := sent h @
                        [\<lparr> http_method = ''post'',
                           url = ''/instance/'' @ uuid inst @ ''/console'',
                           data = JSON_stringify (command h),
                           headers = [(''Content-Type'', ''application/json'')] \<rparr>],
                    listRef := Some (set_scrollTop el (scrollHeight el)),
                    command := '''' \<rparr>"
proof -
  define v where "v = renderView i inst (command h)"
  define h' where "h' = h\<lparr> listRef :=
                (if effectDeps h = Some (consoleLogRef i) then commitList v laidOut
                 else autoScrollEffect (previousRef h) (commitList v laidOut)),
              previousRef := Some (isAtBottom (listRef h)),
              effectDeps := Some (consoleLogRef i) \<rparr>"
  have r: "GameConsole i laidOut h = Inr (v, h')"
    unfolding v_def h'_def by (simp add: GameConsole_Some [OF assms(1)])
  have enabled: "\<not> disabled v"
    using assms(2-5) by (simp add: v_def disabled_renderView)
  have "commitList v laidOut = Some laidOut"
    using assms(2,3) by (simp add: v_def commitList_def pane_renderView)
  then obtain el where el: "listRef h' = Some el"
    using autoScrollEffect_mounted [of "previousRef h" laidOut]
    by (cases "effectDeps h = Some (consoleLogRef i)") (auto simp add: h'_def)
  have cmd: "command h' = command h" and snt: "sent h' = sent h"
    by (simp_all add: h'_def)
  have "pressEnter v inst h' =
               h'\<lparr> sent := sent h @
                        [\<lparr> http_method = ''post'',
                           url = ''/instance/'' @ uuid inst @ ''/console'',
                           data = JSON_stringify (command h),
                           headers = [(''Content-Type'', ''application/json'')] \<rparr>],
                    listRef := Some (set_scrollTop el (scrollHeight el)),
                    command := '''' \<rparr>"
    using enabled el cmd snt
    by (simp add: pressEnter_def onSubmit_def sendCommand_def scrollToBottom_def)
  with r enabled el show ?thesis by blast
qed

text \<open>
  A live console, the user some way up a long log, "say hi" typed: the request goes
  out with the body \<open>"say hi"\<close> (quotes included) and the list is at its lowest
  position, 1600 of 2000 pixels at a height of 400.
\<close>

theorem C5_submit_forwards_and_scrolls_witness:
  "selectedInstance (exampleInputs Live [logLine ''1''] 0) = Some exampleInstance
   \<and> canAccessConsole (exampleInputs Live [logLine ''1''] 0)
   \<and> consoleStatus (exampleInputs Live [logLine ''1''] 0) \<noteq> NoPermission
   \<and> state exampleInstance = ''Running''
   \<and> consoleStatus (exampleInputs Live [logLine ''1''] 0) \<noteq> Closed
   \<and> (\<exists>v h'. GameConsole (exampleInputs Live [logLine ''1''] 0) (listBox 2000 300 400)
                  \<lparr> command = ''say hi'', listRef = Some (listBox 2000 300 400),
                    previousRef = Some False, effectDeps = Some 0, sent = [] \<rparr> = Inr (v, h')
         \<and> pressEnter v exampleInstance h' =
             \<lparr> command = '''', listRef = Some (listBox 2000 1600 400),
               previousRef = Some False, effectDeps = Some 0,
               sent = [\<lparr> http_method = ''post'', url = ''/instance/6e1f/console'',
                         data = [CHR 0x22] @ ''say hi'' @ [CHR 0x22],
                         headers = [(''Content-Type'', ''application/json'')] \<rparr>] \<rparr>)"
proof -
  have sel: "selectedInstance (exampleInputs Live [logLine ''1''] 0) = Some exampleInstance"
    and can: "canAccessConsole (exampleInputs Live [logLine ''1''] 0)"
    and st: "consoleStatus (exampleInputs Live [logLine ''1''] 0) \<noteq> NoPermission"
      "consoleStatus (exampleInputs Live [logLine ''1''] 0) \<noteq> Closed"
    and run: "state exampleInstance = ''Running''"
    by (simp_all add: exampleInputs_def exampleInstance_def)
  have js: "JSON_stringify ''say hi'' = [CHR 0x22] @ ''say hi'' @ [CHR 0x22]"
    by code_simp
  obtain v h' el where
    r: "GameConsole (exampleInputs Live [logLine ''1''] 0) (listBox 2000 300 400)
                  \<lparr> command = ''say hi'', listRef = Some (listBox 2000 300 400),
                    previousRef = Some False, effectDeps = Some 0, sent = [] \<rparr> = Inr (v, h')"
    and el: "listRef h' = Some el"
    and p: "pressEnter v exampleInstance h' =
               h'\<lparr> sent := sent \<lparr> command = ''say hi'', listRef = Some (listBox 2000 300 400),
                    previousRef = Some False, effectDeps = Some 0, sent = [] \<rparr> @
                        [\<lparr> http_method = ''post'',
                           url = ''/instance/'' @ uuid exampleInstance @ ''/console'',
                           data = JSON_stringify (command \<lparr> command = ''say hi'',
                             listRef = Some (listBox 2000 300 400),
                             previousRef = Some False, effectDeps = Some 0, sent = [] \<rparr>),
                           headers = [(''Content-Type'', ''application/json'')] \<rparr>],
                    listRef := Some (set_scrollTop el (scrollHeight el)),
                    command := '''' \<rparr>"
    using C5_submit_forwards_and_scrolls [OF sel can st(1) run st(2), of "listBox 2000 300 400"
        "\<lparr> command = ''say hi'', listRef = Some (listBox 2000 300 400),
           previousRef = Some False, effectDeps = Some 0, sent = [] \<rparr>"]
    by blast
  have h': "h' = \<lparr> command = ''say hi'', listRef = Some (listBox 2000 300 400),
                    previousRef = Some False, effectDeps = Some 0, sent = [] \<rparr>"
    using r by (simp add: GameConsole_Some [OF sel]) (simp add: eval_defs)
  have "el = listBox 2000 300 400"
    using el by (simp add: h')
  then have "pressEnter v exampleInstance h' =
             \<lparr> command = '''', listRef = Some (listBox 2000 1600 400),
               previousRef = Some False, effectDeps = Some 0,
               sent = [\<lparr> http_method = ''post'', url = ''/instance/6e1f/console'',
                         data = [CHR 0x22] @ ''say hi'' @ [CHR 0x22],
                         headers = [(''Content-Type'', ''application/json'')] \<rparr>] \<rparr>"
    using p by (simp add: h' js exampleInstance_def listBox_def set_scrollTop_def)
  with r sel can st run show ?thesis by blast
qed

subsection \<open>No instance selected\<close>

text \<open>
  C6. A render with no instance selected throws the error "No instance selected", and
  a render throws in no other case.
\<close>

theorem C6_no_instance_throws:
  "GameConsole i laidOut h = Inl (JsError ''No instance selected'') \<longleftrightarrow> selectedInstance i = None"
  by (cases "selectedInstance i") (simp_all add: GameConsole_def usePrevious_def Let_def)

subsection \<open>The at-bottom predicate\<close>

text \<open>
  C7. The threshold is 100, and a mounted list is at bottom exactly when its distance
  from the bottom, \<open>scrollHeight - scrollTop - clientHeight\<close>, is strictly less than 100.
\<close>

theorem C7_at_bottom_threshold:
  "autoScrollThreshold = 100 \<and>
   (isAtBottom (Some el) \<longleftrightarrow> scrollHeight el - scrollTop el - clientHeight el < 100)"
  by (simp add: isAtBottom_def autoScrollThreshold_def)

text \<open>C9. While the list element is not mounted (the ref is null), the list counts as at bottom.\<close>

theorem C9_unmounted_list_is_at_bottom: "isAtBottom None"
  by (simp add: isAtBottom_def)

subsection \<open>Scrolling when the log changes\<close>

text \<open>
  What the effect does at a render after the first, when \<open>consoleLog\<close> is another
  array than at the render before: it scrolls to the bottom exactly when the list was
  at bottom as measured during the render before, and leaves the committed list as it
  is otherwise. A scroll by the user between the two renders has no part in it.
\<close>

lemma scroll_decided_at_previous_render:
  assumes "selectedInstance i1 = Some inst1" and "selectedInstance i2 = Some inst2"
    and "consoleLogRef i2 \<noteq> consoleLogRef i1"
  shows "\<exists>v1 h1 v2 h2.
           GameConsole i1 laidOut1 h = Inr (v1, h1)
           \<and> GameConsole i2 laidOut2 (userScroll y h1) = Inr (v2, h2)
           \<and> listRef h2 = (if isAtBottom (listRef h) then scrollToBottom (commitList v2 laidOut2)
                            else commitList v2 laidOut2)"
  using assms(3)
  by (simp add: GameConsole_Some [OF assms(1)] GameConsole_Some [OF assms(2)] userScroll_def
      autoScrollEffect_def)

text \<open>
  C2 has the scroll issued if and only if the viewport was at bottom immediately
  before the append, and the position untouched otherwise. The run below: the
  component mounts; the history arrives and the list is scrolled to the bottom; the
  user scrolls up to offset 200, which is 1400 pixels from the bottom and so not at
  bottom; a new line arrives. The render for the new line commits the list at offset
  200, and the effect then moves it to 1620, the bottom: the value it tested was
  measured at the render before, when the list was at bottom.
\<close>

theorem C2_scroll_after_user_scrolled_up:
  "run unmounted
     [Render (exampleInputs Loading [] 0) (listBox 400 0 400),
      Render (exampleInputs Live [logLine ''1'', logLine ''2''] 1) (listBox 2000 0 400),
      UserScroll 200]
   = Inr \<lparr> command = '''', listRef = Some (listBox 2000 200 400), previousRef = Some True,
           effectDeps = Some 1, sent = [] \<rparr>
   \<and> isAtBottom (Some (listBox 2000 200 400)) = False
   \<and> run unmounted
     [Render (exampleInputs Loading [] 0) (listBox 400 0 400),
      Render (exampleInputs Live [logLine ''1'', logLine ''2''] 1) (listBox 2000 0 400),
      UserScroll 200,
      Render (exampleInputs Live [logLine ''1'', logLine ''2'', logLine ''3''] 2)
        (listBox 2020 200 400)]
   = Inr \<lparr> command = '''', listRef = Some (listBox 2020 1620 400), previousRef = Some False,
           effectDeps = Some 2, sent = [] \<rparr>"
  by (simp add: GameConsole_Some eval_defs)

text \<open>
  C10, as the code has it. At the first render of the component (no list mounted, no
  value kept) \<open>usePrevious\<close> has no value to hand back, and the effect, which runs
  after that render, does not scroll: the list is as committed. From then on a value
  is kept. It is true after the first render, the list not having been mounted, so at
  a change of the log that directly follows, the effect scrolls to the bottom.
\<close>

theorem C10_no_scroll_at_first_render:
  assumes "selectedInstance i = Some inst" and "selectedInstance i2 = Some inst2"
    and "previousRef h = None" and "listRef h = None"
    and "consoleLogRef i2 \<noteq> consoleLogRef i"
  shows "\<exists>v h' v2 h2.
           GameConsole i laidOut h = Inr (v, h')
           \<and> listRef h' = commitList v laidOut
           \<and> GameConsole i2 laidOut2 h' = Inr (v2, h2)
           \<and> listRef h2 = scrollToBottom (commitList v2 laidOut2)"
  using assms(3-5)
  by (simp add: GameConsole_Some [OF assms(1)] GameConsole_Some [OF assms(2)]
      autoScrollEffect_def isAtBottom_def)

text \<open>
  A console that mounts while loading, with a short empty list, and then receives
  2000 pixels of history: the first render leaves the list at offset 0, the second
  moves it to 1600.
\<close>

theorem C10_no_scroll_at_first_render_witness:
  "selectedInstance (exampleInputs Loading [] 0) = Some exampleInstance
   \<and> selectedInstance (exampleInputs Buffered [logLine ''1'', logLine ''2''] 1) = Some exampleInstance
   \<and> previousRef unmounted = None \<and> listRef unmounted = None
   \<and> consoleLogRef (exampleInputs Buffered [logLine ''1'', logLine ''2''] 1)
       \<noteq> consoleLogRef (exampleInputs Loading [] 0)
   \<and> (\<exists>v h' v2 h2.
         GameConsole (exampleInputs Loading [] 0) (listBox 400 0 400) unmounted = Inr (v, h')
         \<and> listRef h' = Some (listBox 400 0 400)
         \<and> GameConsole (exampleInputs Buffered [logLine ''1'', logLine ''2''] 1)
               (listBox 2000 0 400) h' = Inr (v2, h2)
         \<and> listRef h2 = Some (listBox 2000 1600 400))"
proof -
  have sel: "selectedInstance (exampleInputs Loading [] 0) = Some exampleInstance"
    and sel2: "selectedInstance (exampleInputs Buffered [logLine ''1'', logLine ''2''] 1)
                 = Some exampleInstance"
    and prev: "previousRef unmounted = None" and nolist: "listRef unmounted = None"
    and changed: "consoleLogRef (exampleInputs Buffered [logLine ''1'', logLine ''2''] 1)
       \<noteq> consoleLogRef (exampleInputs Loading [] 0)"
    by (simp_all add: exampleInputs_def unmounted_def)
  obtain v h' v2 h2 where
    r: "GameConsole (exampleInputs Loading [] 0) (listBox 400 0 400) unmounted = Inr (v, h')"
    and l: "listRef h' = commitList v (listBox 400 0 400)"
    and r2: "GameConsole (exampleInputs Buffered [logLine ''1'', logLine ''2''] 1)
               (listBox 2000 0 400) h' = Inr (v2, h2)"
    and l2: "listRef h2 = scrollToBottom (commitList v2 (listBox 2000 0 400))"
    using C10_no_scroll_at_first_render [OF sel sel2 prev nolist changed,
        of "listBox 400 0 400" "listBox 2000 0 400"]
    by blast
  have v: "v = renderView (exampleInputs Loading [] 0) exampleInstance (command unmounted)"
    using r unfolding GameConsole_Some [OF sel] by simp
  have v2: "v2 = renderView (exampleInputs Buffered [logLine ''1'', logLine ''2''] 1)
                   exampleInstance (command h')"
    using r2 unfolding GameConsole_Some [OF sel2] by simp
  have "commitList v (listBox 400 0 400) = Some (listBox 400 0 400)"
    by (simp add: v commitList_def pane_renderView exampleInputs_def)
  moreover have "scrollToBottom (commitList v2 (listBox 2000 0 400)) = Some (listBox 2000 1600 400)"
    by (simp add: v2 commitList_def pane_renderView exampleInputs_def scrollToBottom_def
        set_scrollTop_def listBox_def)
  ultimately show ?thesis
    using sel sel2 prev nolist changed r l r2 l2 by auto
qed

text \<open>
  The claim as stated has no scroll at the first change of the log after the mount.
  The same run, as a whole: when the history arrives, the list committed at offset 0
  is moved to 1600, the bottom.
\<close>

theorem C10_counterexample:
  "run unmounted
     [Render (exampleInputs Loading [] 0) (listBox 400 0 400),
      Render (exampleInputs Buffered [logLine ''1'', logLine ''2''] 1) (listBox 2000 0 400)]
   = Inr \<lparr> command = '''', listRef = Some (listBox 2000 1600 400), previousRef = Some True,
           effectDeps = Some 1, sent = [] \<rparr>
   \<and> listBox 2000 1600 400 \<noteq> listBox 2000 0 400"
  by (simp add: GameConsole_Some eval_defs)

section \<open>Properties of the line buffer\<close>








lemma ids_insertLine:
  "line_id ` set (insertLine l buf) = insert (line_id l) (line_id ` set buf)"
  by (auto simp add: insertLine_def set_insort_key)

lemma ids_foldl_insertLine:
  "line_id ` set (foldl (\<lambda>b l. insertLine l b) buf ls) = line_id ` set buf \<union> line_id ` set ls"
proof (induction ls arbitrary: buf)
  case Nil
  then show ?case by simp
next
  case (Cons l ls)
  have "line_id ` set (foldl (\<lambda>b l. insertLine l b) (insertLine l buf) ls)
          = line_id ` set (insertLine l buf) \<union> line_id ` set ls"
    by (rule Cons.IH)
  then show ?case
    by (simp add: ids_insertLine)
qed

lemma foldl_insertLine_known:
  "line_id ` set ls \<subseteq> line_id ` set buf \<Longrightarrow> foldl (\<lambda>b l. insertLine l b) buf ls = buf"
proof (induction ls)
  case Nil
  then show ?case by simp
next
  case (Cons l ls)
  then have "insertLine l buf = buf"
    by (auto simp add: insertLine_def)
  with Cons show ?case by simp
qed

lemma appendBatch_known:
  "line_id ` set batch \<subseteq> line_id ` set buf \<Longrightarrow> appendBatch batch buf = buf"
  by (simp add: appendBatch_def foldl_insertLine_known)

lemma ids_appendBatch:
  "line_id ` set (appendBatch batch buf) = line_id ` set buf \<union> line_id ` set batch"
  by (simp add: appendBatch_def ids_foldl_insertLine)









text \<open>
  C8. Appending a batch a second time changes nothing: the snapshot is the one after
  the first append. More generally a batch all of whose ids the buffer already holds
  is dropped whole.
\<close>

theorem C8_append_idempotent:
  "snapshot (appendBatch batch (appendBatch batch buf)) = snapshot (appendBatch batch buf)
   \<and> (line_id ` set batch \<subseteq> line_id ` set buf \<longrightarrow>
        snapshot (appendBatch batch buf) = snapshot buf)"
proof -
  have "line_id ` set batch \<subseteq> line_id ` set (appendBatch batch buf)"
    by (simp add: ids_appendBatch)
  then have "appendBatch batch (appendBatch batch buf) = appendBatch batch buf"
    by (rule appendBatch_known)
  then show ?thesis
    by (simp add: snapshot_def appendBatch_known)
qed

text \<open>The batch 4, 2 into the buffer 1, 2, 3, once and twice; the batch 3, 1 into it.\<close>

theorem C8_append_idempotent_witness:
  "snapshot (appendBatch [line 4, line 2] [line 1, line 2, line 3])
     = [line 1, line 2, line 3, line 4]
   \<and> snapshot (appendBatch [line 4, line 2]
                 (appendBatch [line 4, line 2] [line 1, line 2, line 3]))
     = [line 1, line 2, line 3, line 4]
   \<and> line_id ` set [line 3, line 1] \<subseteq> line_id ` set [line 1, line 2, line 3]
   \<and> snapshot (appendBatch [line 3, line 1] [line 1, line 2, line 3])
     = [line 1, line 2, line 3]"
proof -
  have once: "snapshot (appendBatch [line 4, line 2] [line 1, line 2, line 3])
     = [line 1, line 2, line 3, line 4]"
    by (simp add: snapshot_def appendBatch_def insertLine_def line_def)
  have known: "line_id ` set [line 3, line 1] \<subseteq> line_id ` set [line 1, line 2, line 3]"
    by (simp add: line_def)
  show ?thesis
    using C8_append_idempotent [of "[line 4, line 2]" "[line 1, line 2, line 3]"]
      C8_append_idempotent [of "[line 3, line 1]" "[line 1, line 2, line 3]"] once known
    by (simp add: snapshot_def)
qed

end
